theory Spec2Isabelle
  imports Complex_Main "HOL-Library.AList"
begin

section \<open>Stage 3 of the pipeline: location extraction, counting and geocoding\<close>

text \<open>
  This theory embeds the functions of \<^verbatim>\<open>src/Task-3/script.py\<close> that carry the
  location-resolution logic: \<^verbatim>\<open>extract_locations\<close>, \<^verbatim>\<open>process_posts\<close>,
  \<^verbatim>\<open>get_coordinates\<close>, \<^verbatim>\<open>get_location_coordinates\<close> and \<^verbatim>\<open>filter_locations\<close>.
  The two external services (the spaCy recogniser and the Nominatim geocoder) are
  parameters of the model; everything the script itself computes is a HOL function.
\<close>

subsection \<open>The geocoding collaborator and the effects of the resolver\<close>

text \<open>
  One call \<^verbatim>\<open>geolocator.geocode(location)\<close> ends in one of four ways that the
  script tells apart: it returns a location object (truthy, with a latitude and a
  longitude), it returns \<^verbatim>\<open>None\<close>, it raises \<^verbatim>\<open>GeocoderTimedOut\<close>, or it raises another
  \<^verbatim>\<open>Exception\<close> (whose text the script prints). An exception outside the
  \<^verbatim>\<open>Exception\<close> hierarchy, such as \<^verbatim>\<open>KeyboardInterrupt\<close>, ends the whole script and is
  not an answer of the service; the model leaves it out. The coordinates are floats that
  the script only passes on, never inspects or computes with, so their type is a
  parameter \<open>'c\<close>.
\<close>

datatype 'c response = Found 'c 'c | NoResult | TimedOut | Failure string

text \<open>
  The observable effects of the resolver, in the order they happen: a call of the
  collaborator, a \<^verbatim>\<open>time.sleep(n)\<close>, a \<^verbatim>\<open>print\<close>.
\<close>

datatype event = Geocode string | Sleep nat | Print string

text \<open>
  The state the resolver works on: the cache dictionary (the script stores only
  coordinate pairs in it), the collaborator's own state \<open>'g\<close> (a mock's call counter or
  script of answers, the network for the real service), and the trace of effects so far.
  The collaborator's behaviour is a function
  \<open>geocode :: 'g \<Rightarrow> string \<Rightarrow> 'c response \<times> 'g\<close>.
\<close>

record ('c, 'g) world =
  location_cache :: "string \<rightharpoonup> 'c \<times> 'c"
  geolocator :: 'g
  trace :: "event list"

definition emit :: "event list \<Rightarrow> ('c, 'g) world \<Rightarrow> ('c, 'g) world" where
  "emit evs w = w\<lparr>trace := trace w @ evs\<rparr>"

definition timeout_message :: "string \<Rightarrow> string" where
  "timeout_message location = ''Timeout for '' @ location @ '', retrying...''"

definition error_message :: "string \<Rightarrow> string \<Rightarrow> string" where
  "error_message location e = ''Error geocoding '' @ location @ '': '' @ e"

text \<open>
  The body of \<^verbatim>\<open>for _ in range(3)\<close> in \<^verbatim>\<open>get_coordinates\<close>, with the number of
  iterations left as the first argument. A truthy answer is cached and returned; a
  \<^verbatim>\<open>None\<close> answer falls through to the next iteration; \<^verbatim>\<open>GeocoderTimedOut\<close> prints,
  sleeps 2 and goes to the next iteration; any other exception prints and returns
  \<^verbatim>\<open>None\<close>. When the iterations are used up the function returns \<^verbatim>\<open>None\<close>.
\<close>

fun attempts ::
  "nat \<Rightarrow> ('g \<Rightarrow> string \<Rightarrow> 'c response \<times> 'g) \<Rightarrow> ('c, 'g) world \<Rightarrow> string
     \<Rightarrow> ('c \<times> 'c) option \<times> ('c, 'g) world" where
  "attempts 0 geocode w location = (None, w)"
| "attempts (Suc n) geocode w location =
     (case geocode (geolocator w) location of
        (geo, g') \<Rightarrow>
          let w1 = emit [Geocode location] (w\<lparr>geolocator := g'\<rparr>) in
          (case geo of
             Found la lo \<Rightarrow>
               (Some (la, lo),
                w1\<lparr>location_cache := (location_cache w1)(location \<mapsto> (la, lo))\<rparr>)
           | NoResult \<Rightarrow> attempts n geocode w1 location
           | TimedOut \<Rightarrow>
               attempts n geocode
                 (emit [Print (timeout_message location), Sleep 2] w1) location
           | Failure e \<Rightarrow> (None, emit [Print (error_message location e)] w1)))"

definition get_coordinates ::
  "('g \<Rightarrow> string \<Rightarrow> 'c response \<times> 'g) \<Rightarrow> ('c, 'g) world \<Rightarrow> string
     \<Rightarrow> ('c \<times> 'c) option \<times> ('c, 'g) world" where
  "get_coordinates geocode w location =
     (case location_cache w location of
        Some coords \<Rightarrow> (Some coords, w)
      | None \<Rightarrow> attempts 3 geocode w location)"

text \<open>The number of collaborator calls recorded in a trace.\<close>

definition lookups :: "event list \<Rightarrow> nat" where
  "lookups evs = length (filter (\<lambda>e. case e of Geocode _ \<Rightarrow> True | _ \<Rightarrow> False) evs)"

text \<open>The state \<^verbatim>\<open>get_location_coordinates\<close> starts from: an empty cache, nothing done yet.\<close>

definition fresh :: "'g \<Rightarrow> ('c, 'g) world" where
  "fresh g = \<lparr>location_cache = Map.empty, geolocator = g, trace = []\<rparr>"

subsection \<open>Strings\<close>

text \<open>
  Python strings are sequences of code points. The model covers the code points below
  256 (ASCII and Latin-1), one \<^typ>\<open>char\<close> each. On these, \<^verbatim>\<open>str.split()\<close> without an
  argument separates at the characters \<^verbatim>\<open>str.isspace\<close> accepts, which are the code points
  9 to 13, 28 to 32, 133 and 160, and \<^verbatim>\<open>str.lower()\<close> adds 32 to the code points 65 to
  90 and 192 to 222 other than 215 and leaves every other one alone.
\<close>

definition is_space :: "char \<Rightarrow> bool" where
  "is_space c = (of_char c \<in> set [9, 10, 11, 12, 13, 28, 29, 30, 31, 32, 133, 160 :: nat])"

definition is_upper :: "char \<Rightarrow> bool" where
  "is_upper c =
     (let n = of_char c :: nat
      in (65 \<le> n \<and> n \<le> 90) \<or> (192 \<le> n \<and> n \<le> 222 \<and> n \<noteq> 215))"

text \<open>
  Every code point \<open>is_upper\<close> accepts has bit 5 clear, so adding 32 sets that bit
  (\<open>lower_char_code\<close> below states the result as a sum).
\<close>

fun plus_32 :: "char \<Rightarrow> char" where
  "plus_32 (Char b0 b1 b2 b3 b4 b5 b6 b7) = Char b0 b1 b2 b3 b4 True b6 b7"

definition lower_char :: "char \<Rightarrow> char" where
  "lower_char c = (if is_upper c then plus_32 c else c)"

definition str_lower :: "string \<Rightarrow> string" where
  "str_lower s = map lower_char s"

text \<open>
  \<^verbatim>\<open>text.split()\<close>: runs of whitespace separate the words, and no word is empty. The first
  argument of \<open>split_from\<close> is the word read so far.
\<close>

fun split_from :: "string \<Rightarrow> string \<Rightarrow> string list" where
  "split_from word [] = (if word = [] then [] else [word])"
| "split_from word (c # cs) =
     (if is_space c then (if word = [] then split_from [] cs else word # split_from [] cs)
      else split_from (word @ [c]) cs)"

definition str_split :: "string \<Rightarrow> string list" where
  "str_split text = split_from [] text"

subsection \<open>Sets and counters\<close>

text \<open>
  A Python \<^verbatim>\<open>set\<close> of strings is a list without duplicates. The order in which
  \<^verbatim>\<open>list(locations)\<close> enumerates a set depends on the hashes of its elements and is not
  fixed by the script; the model enumerates in the order of insertion, and the theorems
  about the extractor speak of membership, multiplicity and length only, which no
  enumeration order changes.
\<close>

definition set_add :: "'a \<Rightarrow> 'a list \<Rightarrow> 'a list" where
  "set_add x s = (if x \<in> set s then s else s @ [x])"

definition py_set :: "'a list \<Rightarrow> 'a list" where
  "py_set xs = fold set_add xs []"

text \<open>
  A \<^verbatim>\<open>Counter\<close> is a dictionary from elements to counts that keeps its keys in the order
  of their first occurrence: an association list. \<open>counter_add\<close> is one step of
  counting, \<^verbatim>\<open>c[x] += 1\<close>.
\<close>

fun counter_add :: "'a \<Rightarrow> ('a \<times> nat) list \<Rightarrow> ('a \<times> nat) list" where
  "counter_add x [] = [(x, 1)]"
| "counter_add x ((k, n) # kvs) =
     (if k = x then (k, n + 1) # kvs else (k, n) # counter_add x kvs)"

definition Counter :: "'a list \<Rightarrow> ('a \<times> nat) list" where
  "Counter xs = fold counter_add xs []"

subsection \<open>The extractor\<close>

text \<open>
  The recogniser \<^verbatim>\<open>nlp\<close> is a parameter: for a text it gives \<^verbatim>\<open>doc.ents\<close>, the entities
  in order, each with its text and its label. The abbreviation table is a dictionary,
  given by its items in order.
\<close>

type_synonym recogniser = "string \<Rightarrow> (string \<times> string) list"

text \<open>
  \<^verbatim>\<open>{key.lower(): val for key, val in abbreviation_mapping.items()}\<close>: a later item
  replaces an earlier one whose key has the same lowercase form.
\<close>

fun lower_item :: "string \<times> string \<Rightarrow> (string \<rightharpoonup> string) \<Rightarrow> (string \<rightharpoonup> string)" where
  "lower_item (key, val) m = m(str_lower key \<mapsto> val)"

definition lower_abbreviation_mapping :: "(string \<times> string) list \<Rightarrow> (string \<rightharpoonup> string)" where
  "lower_abbreviation_mapping abbreviation_mapping =
     fold lower_item abbreviation_mapping Map.empty"

text \<open>The loop over the words of the text, adding the expansion of each word the table knows.\<close>

definition add_abbreviations :: "(string \<rightharpoonup> string) \<Rightarrow> string list \<Rightarrow> string list \<Rightarrow> string list" where
  "add_abbreviations lower_mapping words locations =
     fold (\<lambda>word locs. case lower_mapping (str_lower word) of
                          Some val \<Rightarrow> set_add val locs
                        | None \<Rightarrow> locs) words locations"

definition extract_locations :: "string \<Rightarrow> recogniser \<Rightarrow> (string \<times> string) list \<Rightarrow> string list" where
  "extract_locations text nlp abbreviation_mapping =
     (let doc_ents = nlp text;
          lower_mapping = lower_abbreviation_mapping abbreviation_mapping;
          gpe = py_set (map fst (filter (\<lambda>(ent_text, label). label = ''GPE'') doc_ents));
          locations = add_abbreviations lower_mapping (str_split text) gpe
      in if locations \<noteq> [] then locations else [''no location found''])"

text \<open>The table \<^verbatim>\<open>process_posts\<close> configures.\<close>

definition abbreviation_mapping :: "(string \<times> string) list" where
  "abbreviation_mapping =
     [(''NYC'', ''New York City''),
      (''LA'', ''Los Angeles''),
      (''SF'', ''San Francisco''),
      (''UK'', ''United Kingdom''),
      (''USA'', ''United States''),
      (''US'', ''United States''),
      (''UAE'', ''United Arab Emirates''),
      (''TX'', ''Texas''),
      (''CA'', ''California''),
      (''DC'', ''Washington, D.C.'')]"

subsection \<open>Posts\<close>

text \<open>
  A post is a JSON object read by \<^verbatim>\<open>json.load\<close>: a dictionary from field names to JSON
  values, given by its items in order. Assigning to a key replaces the value in place
  when the key is there and appends the item otherwise, which is \<^const>\<open>AList.update\<close>.
\<close>

datatype json =
  JNull | JBool bool | JInt int | JFloat real | JStr string
  | JArr "json list" | JObj "(string \<times> json) list"

type_synonym post = "(string \<times> json) list"

text \<open>
  \<^verbatim>\<open>post["content"]\<close> raises \<^verbatim>\<open>KeyError\<close> when the post has no such field. When the field
  is not a string, the recogniser and \<^verbatim>\<open>text.split()\<close> have nothing to work on and the
  call raises as well. Either exception leaves \<^verbatim>\<open>process_posts\<close> at once, and the
  caller gets no result: the model returns the error alone. The recogniser is the
  parameter \<open>nlp\<close>, in place of the model \<^verbatim>\<open>spacy.load\<close> returns.
\<close>

datatype error = KeyError string | NotAString

definition location_field :: "string list \<Rightarrow> json" where
  "location_field locations = JArr (map JStr locations)"

fun process_posts :: "recogniser \<Rightarrow> post list \<Rightarrow> error + (post list \<times> string list list)" where
  "process_posts nlp [] = Inr ([], [])"
| "process_posts nlp (post # rest) =
     (case map_of post ''content'' of
        None \<Rightarrow> Inl (KeyError ''content'')
      | Some (JStr text) \<Rightarrow>
          (let locations = extract_locations text nlp abbreviation_mapping
           in case process_posts nlp rest of
                Inl e \<Rightarrow> Inl e
              | Inr (posts, all_locations) \<Rightarrow>
                  Inr (AList.update ''location'' (location_field locations) post # posts,
                       locations # all_locations))
      | Some _ \<Rightarrow> Inl NotAString)"

subsection \<open>Counting and aggregation\<close>

definition unwanted_words :: "string list" where
  "unwanted_words =
     [''no location found'', ''meth'', ''kinda'', ''example'', ''country'',
      ''place'', ''world'', ''earth'', ''everywhere'', ''phobia'', ''mcas'']"

definition filter_locations :: "string list list \<Rightarrow> (string \<times> nat) list" where
  "filter_locations all_locations =
     (let flat_locations = concat all_locations;
          filtered_locations =
            filter (\<lambda>loc. str_lower loc \<notin> set unwanted_words) flat_locations
      in Counter filtered_locations)"

text \<open>
  \<^verbatim>\<open>get_location_coordinates\<close> builds the Nominatim client from its \<^verbatim>\<open>user_agent\<close>
  argument; the model takes the client instead, as the behaviour \<open>geocode\<close> and the
  initial state \<open>g\<close>. The loop goes through the items of the counter, asks the resolver,
  appends \<^verbatim>\<open>(*coords, count)\<close> when the answer is a pair, and sleeps 2 after every item.
\<close>

fun resolve_items ::
  "('g \<Rightarrow> string \<Rightarrow> 'c response \<times> 'g) \<Rightarrow> ('c, 'g) world \<Rightarrow> (string \<times> nat) list
     \<Rightarrow> ('c \<times> 'c \<times> nat) list \<Rightarrow> ('c \<times> 'c \<times> nat) list \<times> ('c, 'g) world" where
  "resolve_items geocode w [] location_coordinates = (location_coordinates, w)"
| "resolve_items geocode w ((location, count) # rest) location_coordinates =
     (case get_coordinates geocode w location of
        (coords, w1) \<Rightarrow>
          resolve_items geocode (emit [Sleep 2] w1) rest
            (case coords of
               Some (la, lo) \<Rightarrow> location_coordinates @ [(la, lo, count)]
             | None \<Rightarrow> location_coordinates))"

definition get_location_coordinates ::
  "('g \<Rightarrow> string \<Rightarrow> 'c response \<times> 'g) \<Rightarrow> 'g \<Rightarrow> (string \<times> nat) list
     \<Rightarrow> ('c \<times> 'c \<times> nat) list \<times> ('c, 'g) world" where
  "get_location_coordinates geocode g location_counts =
     resolve_items geocode (fresh g) location_counts []"

text \<open>
  What the resolver answers for each item of the counter in turn, on the state the items
  before it left, and the points one item with its answer gives: one triple for a pair of
  coordinates, none for \<^verbatim>\<open>None\<close>. They state what \<open>get_location_coordinates\<close> returns.
\<close>

fun outcomes ::
  "('g \<Rightarrow> string \<Rightarrow> 'c response \<times> 'g) \<Rightarrow> ('c, 'g) world \<Rightarrow> (string \<times> nat) list
     \<Rightarrow> ('c \<times> 'c) option list" where
  "outcomes geocode w [] = []"
| "outcomes geocode w ((location, count) # rest) =
     (case get_coordinates geocode w location of
        (coords, w1) \<Rightarrow> coords # outcomes geocode (emit [Sleep 2] w1) rest)"

fun point :: "(string \<times> nat) \<times> ('c \<times> 'c) option \<Rightarrow> ('c \<times> 'c \<times> nat) list" where
  "point ((location, count), Some (la, lo)) = [(la, lo, count)]"
| "point ((location, count), None) = []"

text \<open>
  What the two passes of the extractor find in a text: the names the recogniser labels
  \<^verbatim>\<open>GPE\<close>, and the expansions of the words the lowered table knows. These two sets
  are used to state what \<open>extract_locations\<close> returns.
\<close>

definition gpe_names :: "recogniser \<Rightarrow> string \<Rightarrow> string set" where
  "gpe_names nlp text = {ent_text. (ent_text, ''GPE'') \<in> set (nlp text)}"

definition expansions :: "(string \<times> string) list \<Rightarrow> string \<Rightarrow> string set" where
  "expansions table text =
     {val. \<exists>word \<in> set (str_split text).
             lower_abbreviation_mapping table (str_lower word) = Some val}"

subsection \<open>Mock collaborators\<close>

text \<open>
  Mock recognisers for concrete runs: \<open>dates_only\<close> finds a date and no place in every
  text, \<open>texas_ner\<close> finds Texas and a date in every text.
\<close>

definition dates_only :: recogniser where
  "dates_only text = [(''today'', ''DATE'')]"

definition texas_ner :: recogniser where
  "texas_ner text = [(''Texas'', ''GPE''), (''today'', ''DATE'')]"

text \<open>
  Mock collaborators for concrete runs. Each counts its calls in its state.
  \<open>texas_mock\<close> answers \<open>(31.0, -100.0)\<close> for Texas and has no result for any other
  name; \<open>always_timeout\<close> raises \<^verbatim>\<open>GeocoderTimedOut\<close> on every call;
  \<open>always_none\<close> returns \<^verbatim>\<open>None\<close> on every call; \<open>always_fails\<close> raises another
  exception on every call.
\<close>

definition texas_mock :: "nat \<Rightarrow> string \<Rightarrow> real response \<times> nat" where
  "texas_mock g name = (if name = ''Texas'' then Found 31 (-100) else NoResult, Suc g)"

definition always_timeout :: "nat \<Rightarrow> string \<Rightarrow> real response \<times> nat" where
  "always_timeout g name = (TimedOut, Suc g)"

definition always_none :: "nat \<Rightarrow> string \<Rightarrow> real response \<times> nat" where
  "always_none g name = (NoResult, Suc g)"

definition always_fails :: "nat \<Rightarrow> string \<Rightarrow> real response \<times> nat" where
  "always_fails g name = (Failure ''service error'', Suc g)"

subsection \<open>The resolver: cache hits\<close>

lemma get_coordinates_hit:
  "location_cache w location = Some coords \<Longrightarrow>
     get_coordinates geocode w location = (Some coords, w)"
  by (simp add: get_coordinates_def)

lemma get_coordinates_miss:
  "location_cache w location = None \<Longrightarrow>
     get_coordinates geocode w location = attempts 3 geocode w location"
  by (simp add: get_coordinates_def)

lemma attempts_cache:
  "location_cache (snd (attempts n geocode w location)) =
     (case fst (attempts n geocode w location) of
        None \<Rightarrow> location_cache w
      | Some c \<Rightarrow> (location_cache w)(location \<mapsto> c))"
  by (induction n arbitrary: w)
     (simp_all add: emit_def Let_def split: prod.splits response.splits option.splits)

text \<open>
  C1. Cache idempotence of the resolver. Whenever a call of \<^verbatim>\<open>get_coordinates\<close>
  leaves an entry for the place name in the cache, the call returned that entry, and a
  second call with the same name, on the state the first call left, returns the same
  outcome, changes nothing and adds no event to the trace: no collaborator call, no
  sleep, no attempt loop.
\<close>

theorem get_coordinates_cache_idempotent:
  assumes "get_coordinates geocode w location = (r, w')"
    and "location \<in> dom (location_cache w')"
  shows "get_coordinates geocode w' location = (r, w')
         \<and> r = location_cache w' location
         \<and> trace (snd (get_coordinates geocode w' location)) = trace w'
         \<and> lookups (trace (snd (get_coordinates geocode w' location))) = lookups (trace w')"
proof -
  have r: "r = location_cache w' location"
  proof (cases "location_cache w location")
    case (Some c)
    with assms(1) show ?thesis by (simp add: get_coordinates_def)
  next
    case None
    with assms(1) have a: "attempts 3 geocode w location = (r, w')"
      by (simp add: get_coordinates_def)
    from attempts_cache [of 3 geocode w location] assms(2) None show ?thesis
      unfolding a by (cases r) auto
  qed
  with assms(2) obtain c where c: "location_cache w' location = Some c" "r = Some c"
    by auto
  then have "get_coordinates geocode w' location = (r, w')"
    by (simp add: get_coordinates_hit)
  with r show ?thesis by simp
qed

text \<open>
  A run of the first call on an empty cache with a collaborator that knows Texas, and the
  second call on the state it leaves.
\<close>

theorem get_coordinates_cache_idempotent_witness:
  "get_coordinates texas_mock (fresh 0) ''Texas''
     = (Some (31, -100),
        \<lparr>location_cache = [''Texas'' \<mapsto> (31, -100)], geolocator = 1,
         trace = [Geocode ''Texas'']\<rparr>)
   \<and> ''Texas'' \<in> dom [''Texas'' \<mapsto> (31 :: real, -100 :: real)]
   \<and> get_coordinates texas_mock
         \<lparr>location_cache = [''Texas'' \<mapsto> (31, -100)], geolocator = 1,
          trace = [Geocode ''Texas'']\<rparr> ''Texas''
       = (Some (31, -100),
          \<lparr>location_cache = [''Texas'' \<mapsto> (31, -100)], geolocator = 1,
           trace = [Geocode ''Texas'']\<rparr>)"
proof -
  have first: "get_coordinates texas_mock (fresh 0) ''Texas''
     = (Some (31, -100),
        \<lparr>location_cache = [''Texas'' \<mapsto> (31, -100)], geolocator = 1,
         trace = [Geocode ''Texas'']\<rparr>)"
    by (simp add: get_coordinates_def fresh_def texas_mock_def emit_def numeral_3_eq_3)
  have stored: "''Texas'' \<in> dom (location_cache
        \<lparr>location_cache = [''Texas'' \<mapsto> (31 :: real, -100 :: real)], geolocator = 1 :: nat,
         trace = [Geocode ''Texas'']\<rparr>)"
    by simp
  from get_coordinates_cache_idempotent [OF first stored] first show ?thesis
    by simp
qed

subsection \<open>The resolver: timeouts\<close>

lemma attempts_timeouts:
  assumes "\<forall>g name. fst (geocode g name) = TimedOut"
  shows "fst (attempts n geocode w location) = None
       \<and> location_cache (snd (attempts n geocode w location)) = location_cache w
       \<and> trace (snd (attempts n geocode w location))
           = trace w @ concat (replicate n
               [Geocode location, Print (timeout_message location), Sleep 2])"
proof (induction n arbitrary: w)
  case 0
  show ?case by simp
next
  case (Suc n)
  obtain g' where g: "geocode (geolocator w) location = (TimedOut, g')"
    using assms by (metis fst_conv surj_pair)
  show ?case using Suc.IH by (simp add: g emit_def)
qed

lemma lookups_append: "lookups (xs @ ys) = lookups xs + lookups ys"
  by (simp add: lookups_def)

text \<open>
  C2. Retry bound on timeouts. With a collaborator that raises \<^verbatim>\<open>GeocoderTimedOut\<close> on
  every call, and a name that is not in the cache, \<^verbatim>\<open>get_coordinates\<close> calls the
  collaborator exactly three times, prints and sleeps 2 after each timeout (also after
  the third), returns \<^verbatim>\<open>None\<close>, and leaves the cache as it was: nothing is stored for
  the name.
\<close>

theorem get_coordinates_always_timeout:
  assumes "\<forall>g name. fst (geocode g name) = TimedOut"
    and "location_cache w location = None"
  shows "fst (get_coordinates geocode w location) = None
       \<and> location_cache (snd (get_coordinates geocode w location)) = location_cache w
       \<and> location \<notin> dom (location_cache (snd (get_coordinates geocode w location)))
       \<and> trace (snd (get_coordinates geocode w location))
           = trace w @
             [Geocode location, Print (timeout_message location), Sleep 2,
              Geocode location, Print (timeout_message location), Sleep 2,
              Geocode location, Print (timeout_message location), Sleep 2]
       \<and> lookups (trace (snd (get_coordinates geocode w location)))
           = lookups (trace w) + 3"
proof -
  have m: "get_coordinates geocode w location = attempts 3 geocode w location"
    using assms(2) by (rule get_coordinates_miss)
  note t = attempts_timeouts [OF assms(1), of 3 w location]
  have tr: "trace (snd (attempts 3 geocode w location))
           = trace w @
             [Geocode location, Print (timeout_message location), Sleep 2,
              Geocode location, Print (timeout_message location), Sleep 2,
              Geocode location, Print (timeout_message location), Sleep 2]"
    using t by (simp add: numeral_3_eq_3)
  have "lookups (trace (snd (attempts 3 geocode w location))) = lookups (trace w) + 3"
    unfolding tr lookups_append by (simp add: lookups_def)
  with t tr assms(2) show ?thesis unfolding m by (simp add: domIff)
qed

text \<open>The run on an empty cache with the mock that always times out.\<close>

theorem get_coordinates_always_timeout_witness:
  "(\<forall>g name. fst (always_timeout g name) = TimedOut)
   \<and> location_cache (fresh 0 :: (real, nat) world) ''Atlantis'' = None
   \<and> get_coordinates always_timeout (fresh 0) ''Atlantis''
       = (None,
          \<lparr>location_cache = Map.empty, geolocator = 3,
           trace = [Geocode ''Atlantis'', Print ''Timeout for Atlantis, retrying...'', Sleep 2,
                    Geocode ''Atlantis'', Print ''Timeout for Atlantis, retrying...'', Sleep 2,
                    Geocode ''Atlantis'', Print ''Timeout for Atlantis, retrying...'', Sleep 2]\<rparr>)
   \<and> lookups (trace (snd (get_coordinates always_timeout (fresh 0) ''Atlantis''))) = 3"
proof -
  have h1: "\<forall>g name. fst (always_timeout g name) = TimedOut"
    by (simp add: always_timeout_def)
  have h2: "location_cache (fresh 0 :: (real, nat) world) ''Atlantis'' = None"
    by (simp add: fresh_def)
  have run: "get_coordinates always_timeout (fresh 0) ''Atlantis''
       = (None,
          \<lparr>location_cache = Map.empty, geolocator = 3,
           trace = [Geocode ''Atlantis'', Print ''Timeout for Atlantis, retrying...'', Sleep 2,
                    Geocode ''Atlantis'', Print ''Timeout for Atlantis, retrying...'', Sleep 2,
                    Geocode ''Atlantis'', Print ''Timeout for Atlantis, retrying...'', Sleep 2]\<rparr>)"
    by (simp add: get_coordinates_def fresh_def always_timeout_def emit_def
          timeout_message_def numeral_3_eq_3)
  from get_coordinates_always_timeout [OF h1 h2] h1 h2 run show ?thesis
    by (simp add: lookups_def)
qed

subsection \<open>The resolver: other failures\<close>

lemma attempts_first_lookup:
  "\<exists>evs. trace (snd (attempts (Suc n) geocode w location))
           = trace w @ Geocode location # evs"
proof -
  have ext: "\<exists>evs. trace (snd (attempts k geocode v location)) = trace v @ evs" for k v
  proof (induction k arbitrary: v)
    case 0
    show ?case by simp
  next
    case (Suc k)
    obtain geo g' where g: "geocode (geolocator v) location = (geo, g')"
      by (cases "geocode (geolocator v) location")
    show ?case
    proof (cases geo)
      case (Found la lo)
      with g show ?thesis by (simp add: emit_def)
    next
      case NoResult
      from Suc.IH [of "emit [Geocode location] (v\<lparr>geolocator := g'\<rparr>)"]
      show ?thesis using g NoResult by (auto simp: emit_def)
    next
      case TimedOut
      from Suc.IH [of "emit [Print (timeout_message location), Sleep 2]
                         (emit [Geocode location] (v\<lparr>geolocator := g'\<rparr>))"]
      show ?thesis using g TimedOut by (auto simp: emit_def)
    next
      case (Failure e)
      with g show ?thesis by (simp add: emit_def)
    qed
  qed
  obtain geo g' where g: "geocode (geolocator w) location = (geo, g')"
    by (cases "geocode (geolocator w) location")
  show ?thesis
  proof (cases geo)
    case (Found la lo)
    with g show ?thesis by (simp add: emit_def)
  next
    case NoResult
    from ext [of n "emit [Geocode location] (w\<lparr>geolocator := g'\<rparr>)"]
    show ?thesis using g NoResult by (auto simp: emit_def)
  next
    case TimedOut
    from ext [of n "emit [Print (timeout_message location), Sleep 2]
                       (emit [Geocode location] (w\<lparr>geolocator := g'\<rparr>))"]
    show ?thesis using g TimedOut by (auto simp: emit_def)
  next
    case (Failure e)
    with g show ?thesis by (simp add: emit_def)
  qed
qed

text \<open>
  C3. A failure that is not a timeout aborts without caching. For a name that is not in
  the cache, when the first call of the collaborator raises an exception other than
  \<^verbatim>\<open>GeocoderTimedOut\<close>, \<^verbatim>\<open>get_coordinates\<close> prints the error and returns \<^verbatim>\<open>None\<close>
  after that single call; the cache is unchanged, so the next call with the same name
  misses the cache, enters the attempt loop again and calls the collaborator first thing.
\<close>

theorem get_coordinates_failure_not_cached:
  assumes "location_cache w location = None"
    and "geocode (geolocator w) location = (Failure e, g')"
  shows "get_coordinates geocode w location
           = (None, w\<lparr>geolocator := g',
                         trace := trace w @ [Geocode location, Print (error_message location e)]\<rparr>)
       \<and> location_cache (snd (get_coordinates geocode w location)) = location_cache w
       \<and> lookups (trace (snd (get_coordinates geocode w location))) = lookups (trace w) + 1
       \<and> get_coordinates geocode (snd (get_coordinates geocode w location)) location
           = attempts 3 geocode (snd (get_coordinates geocode w location)) location
       \<and> (\<exists>evs. trace (snd (get_coordinates geocode
                                   (snd (get_coordinates geocode w location)) location))
                  = trace (snd (get_coordinates geocode w location)) @ Geocode location # evs)"
proof -
  let ?w' = "w\<lparr>geolocator := g',
                 trace := trace w @ [Geocode location, Print (error_message location e)]\<rparr>"
  have run: "get_coordinates geocode w location = (None, ?w')"
    using assms by (simp add: get_coordinates_def numeral_3_eq_3 emit_def)
  have miss: "location_cache ?w' location = None"
    using assms(1) by simp
  have again: "get_coordinates geocode ?w' location = attempts 3 geocode ?w' location"
    using miss by (rule get_coordinates_miss)
  have "\<exists>evs. trace (snd (attempts 3 geocode ?w' location)) = trace ?w' @ Geocode location # evs"
    unfolding numeral_3_eq_3 by (rule attempts_first_lookup)
  then have first: "\<exists>evs. trace (snd (get_coordinates geocode ?w' location))
                       = trace ?w' @ Geocode location # evs"
    unfolding again .
  have count: "lookups (trace ?w') = lookups (trace w) + 1"
    by (simp add: lookups_def)
  show ?thesis
    unfolding run snd_conv using again first count by simp
qed

text \<open>Two calls in a row with the mock that always raises another exception.\<close>

theorem get_coordinates_failure_not_cached_witness:
  "location_cache (fresh 0 :: (real, nat) world) ''Texas'' = None
   \<and> always_fails 0 ''Texas'' = (Failure ''service error'', 1)
   \<and> get_coordinates always_fails (fresh 0) ''Texas''
       = (None, \<lparr>location_cache = Map.empty, geolocator = 1,
                  trace = [Geocode ''Texas'', Print ''Error geocoding Texas: service error'']\<rparr>)
   \<and> get_coordinates always_fails
         \<lparr>location_cache = Map.empty, geolocator = 1,
          trace = [Geocode ''Texas'', Print ''Error geocoding Texas: service error'']\<rparr> ''Texas''
       = (None, \<lparr>location_cache = Map.empty, geolocator = 2,
                  trace = [Geocode ''Texas'', Print ''Error geocoding Texas: service error'',
                           Geocode ''Texas'', Print ''Error geocoding Texas: service error'']\<rparr>)"
proof -
  have h1: "location_cache (fresh 0 :: (real, nat) world) ''Texas'' = None"
    by (simp add: fresh_def)
  have h2: "always_fails (geolocator (fresh 0 :: (real, nat) world)) ''Texas''
              = (Failure ''service error'', 1)"
    by (simp add: fresh_def always_fails_def)
  have second: "get_coordinates always_fails
         \<lparr>location_cache = Map.empty, geolocator = 1,
          trace = [Geocode ''Texas'', Print ''Error geocoding Texas: service error'']\<rparr> ''Texas''
       = (None, \<lparr>location_cache = Map.empty, geolocator = 2,
                  trace = [Geocode ''Texas'', Print ''Error geocoding Texas: service error'',
                           Geocode ''Texas'', Print ''Error geocoding Texas: service error'']\<rparr>)"
    by (simp add: get_coordinates_def always_fails_def emit_def error_message_def numeral_3_eq_3)
  from get_coordinates_failure_not_cached
      [where geocode = always_fails and w = "fresh 0 :: (real, nat) world", OF h1 h2] h1 second show ?thesis
    by (simp add: fresh_def always_fails_def error_message_def)
qed

subsection \<open>The resolver: empty answers\<close>

lemma attempts_no_result_step:
  "geocode (geolocator w) location = (NoResult, g') \<Longrightarrow>
     attempts (Suc n) geocode w location
       = attempts n geocode (w\<lparr>geolocator := g', trace := trace w @ [Geocode location]\<rparr>) location"
  by (simp add: emit_def)

lemma attempts_no_result_then_found:
  assumes "location_cache w location = None"
    and "geocode (geolocator w) location = (NoResult, g1)"
    and "geocode g1 location = (Found la lo, g2)"
  shows "get_coordinates geocode w location
           = (Some (la, lo),
              \<lparr>location_cache = (location_cache w)(location \<mapsto> (la, lo)), geolocator = g2,
               trace = trace w @ [Geocode location, Geocode location]\<rparr>)"
  using assms by (simp add: get_coordinates_def numeral_3_eq_3 emit_def)

text \<open>
  C9. An empty answer is retried without backoff. When the collaborator returns
  \<^verbatim>\<open>None\<close> without raising, the loop body does nothing and the next iteration calls it
  again. If all three calls return \<^verbatim>\<open>None\<close>, \<^verbatim>\<open>get_coordinates\<close> has made exactly
  three calls, with no sleep and no print between them, returns \<^verbatim>\<open>None\<close> and has stored
  nothing in the cache.
\<close>

theorem get_coordinates_no_result_retried:
  assumes "location_cache w location = None"
    and "geocode (geolocator w) location = (NoResult, g1)"
    and "geocode g1 location = (NoResult, g2)"
    and "geocode g2 location = (NoResult, g3)"
  shows "get_coordinates geocode w location
           = (None, w\<lparr>geolocator := g3,
                         trace := trace w @ [Geocode location, Geocode location, Geocode location]\<rparr>)
       \<and> location_cache (snd (get_coordinates geocode w location)) = location_cache w
       \<and> lookups (trace (snd (get_coordinates geocode w location))) = lookups (trace w) + 3
       \<and> (\<forall>n. Sleep n \<notin> set (drop (length (trace w))
                                  (trace (snd (get_coordinates geocode w location)))))"
proof -
  have run: "get_coordinates geocode w location
           = (None, w\<lparr>geolocator := g3,
                         trace := trace w @ [Geocode location, Geocode location, Geocode location]\<rparr>)"
    using assms by (simp add: get_coordinates_def numeral_3_eq_3 emit_def)
  show ?thesis unfolding run snd_conv by (simp add: lookups_def)
qed

text \<open>The run on an empty cache with the mock that never has a result.\<close>

theorem get_coordinates_no_result_retried_witness:
  "location_cache (fresh 0 :: (real, nat) world) ''Atlantis'' = None
   \<and> always_none 0 ''Atlantis'' = (NoResult, 1)
   \<and> always_none 1 ''Atlantis'' = (NoResult, 2)
   \<and> always_none 2 ''Atlantis'' = (NoResult, 3)
   \<and> get_coordinates always_none (fresh 0) ''Atlantis''
       = (None, \<lparr>location_cache = Map.empty, geolocator = 3,
                  trace = [Geocode ''Atlantis'', Geocode ''Atlantis'', Geocode ''Atlantis'']\<rparr>)"
proof -
  have h0: "location_cache (fresh 0 :: (real, nat) world) ''Atlantis'' = None"
    by (simp add: fresh_def)
  have h1: "always_none (geolocator (fresh 0 :: (real, nat) world)) ''Atlantis'' = (NoResult, 1)"
    by (simp add: fresh_def always_none_def)
  have h2: "always_none 1 ''Atlantis'' = (NoResult, 2)"
    by (simp add: always_none_def)
  have h3: "always_none 2 ''Atlantis'' = (NoResult, 3)"
    by (simp add: always_none_def)
  from get_coordinates_no_result_retried
      [where geocode = always_none and w = "fresh 0 :: (real, nat) world", OF h0 h1 h2 h3] h0 h2 h3 show ?thesis
    by (simp add: fresh_def always_none_def)
qed

subsection \<open>Strings, sets and the lowered table\<close>


lemma lower_char_code:
  "of_char (lower_char c) = (if is_upper c then of_char c + 32 else (of_char c :: nat))"
  by (cases c) (simp add: lower_char_def is_upper_def)

lemma set_set_add: "set (set_add x s) = insert x (set s)"
  by (auto simp: set_add_def)

lemma distinct_set_add: "distinct s \<Longrightarrow> distinct (set_add x s)"
  by (simp add: set_add_def)

lemma set_fold_set_add: "set (fold set_add xs acc) = set xs \<union> set acc"
  by (induction xs arbitrary: acc) (auto simp: set_set_add)

lemma distinct_fold_set_add: "distinct acc \<Longrightarrow> distinct (fold set_add xs acc)"
  by (induction xs arbitrary: acc) (simp_all add: distinct_set_add)

lemma set_py_set: "set (py_set xs) = set xs"
  by (simp add: py_set_def set_fold_set_add)

lemma distinct_py_set: "distinct (py_set xs)"
  by (simp add: py_set_def distinct_fold_set_add)

lemma set_add_abbreviations:
  "set (add_abbreviations m ws locs) =
     set locs \<union> {val. \<exists>word \<in> set ws. m (str_lower word) = Some val}"
  unfolding add_abbreviations_def
proof (induction ws arbitrary: locs)
  case Nil
  show ?case by simp
next
  case (Cons w ws)
  show ?case
  proof (cases "m (str_lower w)")
    case None
    then show ?thesis using Cons.IH [of locs] by auto
  next
    case (Some v)
    then show ?thesis using Cons.IH [of "set_add v locs"] by (auto simp: set_set_add)
  qed
qed

lemma distinct_add_abbreviations:
  "distinct locs \<Longrightarrow> distinct (add_abbreviations m ws locs)"
  unfolding add_abbreviations_def
  by (induction ws arbitrary: locs) (simp_all add: distinct_set_add split: option.splits)

lemma set_gpe:
  "set (py_set (map fst (filter (\<lambda>(ent_text, label). label = ''GPE'') (nlp text))))
     = gpe_names nlp text"
  by (auto simp: set_py_set gpe_names_def image_iff)

lemma set_extract_locations:
  "set (extract_locations text nlp table) =
     (if gpe_names nlp text \<union> expansions table text = {} then {''no location found''}
      else gpe_names nlp text \<union> expansions table text)"
proof -
  let ?locs = "add_abbreviations (lower_abbreviation_mapping table) (str_split text)
     (py_set (map fst (filter (\<lambda>(ent_text, label). label = ''GPE'') (nlp text))))"
  have s: "set ?locs = gpe_names nlp text \<union> expansions table text"
    unfolding set_add_abbreviations set_gpe expansions_def ..
  have e: "extract_locations text nlp table
             = (if ?locs \<noteq> [] then ?locs else [''no location found''])"
    by (simp add: extract_locations_def Let_def)
  show ?thesis
  proof (cases "?locs = []")
    case True
    with s e show ?thesis by simp
  next
    case False
    then have "set ?locs \<noteq> {}" by simp
    with s e False show ?thesis by simp
  qed
qed

lemma distinct_extract_locations: "distinct (extract_locations text nlp table)"
  by (simp add: extract_locations_def Let_def distinct_add_abbreviations distinct_py_set)

lemma lower_abbreviation_mapping_fold:
  "fold lower_item items m
     = m ++ map_of (rev (map (\<lambda>(key, val). (str_lower key, val)) items))"
proof (induction items arbitrary: m)
  case Nil
  show ?case by simp
next
  case (Cons kv items)
  obtain key val where kv: "kv = (key, val)" by (cases kv)
  have "m(str_lower key \<mapsto> val) ++ map_of (rev (map (\<lambda>(key, val). (str_lower key, val)) items))
        = m ++ ([str_lower key \<mapsto> val]
                  ++ map_of (rev (map (\<lambda>(key, val). (str_lower key, val)) items)))"
    by (metis map_add_assoc map_add_empty map_add_upd)
  moreover have "fold lower_item (kv # items) m = fold lower_item items (m(str_lower key \<mapsto> val))"
    unfolding kv fold_simps comp_apply lower_item.simps ..
  ultimately show ?case
    unfolding Cons.IH by (simp add: kv)
qed

lemma dom_lower_abbreviation_mapping:
  "dom (lower_abbreviation_mapping table) = str_lower ` fst ` set table"
  by (force simp: lower_abbreviation_mapping_def lower_abbreviation_mapping_fold dom_map_of_conv_image_fst image_iff)

lemma lower_abbreviation_mapping_unique:
  assumes "(key, val) \<in> set table"
    and "\<forall>(key', val') \<in> set table. str_lower key' = str_lower key \<longrightarrow> val' = val"
  shows "lower_abbreviation_mapping table (str_lower key) = Some val"
proof -
  from assms(1) have "str_lower key \<in> dom (lower_abbreviation_mapping table)"
    unfolding dom_lower_abbreviation_mapping by force
  then obtain v where v: "lower_abbreviation_mapping table (str_lower key) = Some v"
    by auto
  then have "map_of (rev (map (\<lambda>(key, val). (str_lower key, val)) table)) (str_lower key) = Some v"
    by (simp add: lower_abbreviation_mapping_def lower_abbreviation_mapping_fold)
  then have "(str_lower key, v) \<in> set (rev (map (\<lambda>(key, val). (str_lower key, val)) table))"
    by (rule map_of_SomeD)
  then obtain key' where "(key', v) \<in> set table" "str_lower key' = str_lower key"
    by auto
  with assms(2) have "v = val" by auto
  with v show ?thesis by simp
qed


lemma extract_locations_cases:
  "(gpe_names nlp text \<union> expansions table text = {}
      \<and> extract_locations text nlp table = [''no location found''])
   \<or> (gpe_names nlp text \<union> expansions table text \<noteq> {}
      \<and> set (extract_locations text nlp table) = gpe_names nlp text \<union> expansions table text)"
proof -
  let ?locs = "add_abbreviations (lower_abbreviation_mapping table) (str_split text)
     (py_set (map fst (filter (\<lambda>(ent_text, label). label = ''GPE'') (nlp text))))"
  have s: "set ?locs = gpe_names nlp text \<union> expansions table text"
    unfolding set_add_abbreviations set_gpe expansions_def ..
  have e: "extract_locations text nlp table
             = (if ?locs \<noteq> [] then ?locs else [''no location found''])"
    by (simp add: extract_locations_def Let_def)
  show ?thesis
  proof (cases "?locs = []")
    case True
    with s e show ?thesis by simp
  next
    case False
    then have "set ?locs \<noteq> {}" by simp
    with s e False show ?thesis by simp
  qed
qed

lemma in_extract_locations:
  assumes "name \<in> gpe_names nlp text \<union> expansions table text"
  shows "name \<in> set (extract_locations text nlp table)"
  using assms extract_locations_cases [of nlp "text" table] by auto

text \<open>
  C5. Sentinel on empty extraction. When the recogniser labels no entity of the text
  \<^verbatim>\<open>GPE\<close> and no word of \<^verbatim>\<open>text.split()\<close> equals a key of the abbreviation table
  ignoring case, \<^verbatim>\<open>extract_locations\<close> returns exactly the one-element list
  \<^verbatim>\<open>["no location found"]\<close>, not an empty one.
\<close>

theorem extract_locations_sentinel:
  assumes "\<forall>(ent_text, label) \<in> set (nlp text). label \<noteq> ''GPE''"
    and "\<forall>word \<in> set (str_split text). \<forall>(key, val) \<in> set table.
           str_lower word \<noteq> str_lower key"
  shows "extract_locations text nlp table = [''no location found'']"
proof -
  have "gpe_names nlp text = {}"
    using assms(1) by (auto simp: gpe_names_def)
  moreover have "expansions table text = {}"
  proof -
    have "lower_abbreviation_mapping table (str_lower word) = None"
      if "word \<in> set (str_split text)" for word
    proof -
      from assms(2) that have "str_lower word \<notin> str_lower ` fst ` set table"
        by force
      then show ?thesis
        unfolding dom_lower_abbreviation_mapping [symmetric] by (simp add: domIff)
    qed
    then show ?thesis by (auto simp: expansions_def)
  qed
  ultimately show ?thesis
    using extract_locations_cases [of nlp "text" table] by simp
qed

text \<open>A text with no place and no abbreviation, with the table of \<^verbatim>\<open>process_posts\<close>.\<close>

theorem extract_locations_sentinel_witness:
  "dates_only ''feeling kinda lost today'' = [(''today'', ''DATE'')]
   \<and> str_split ''feeling kinda lost today'' = [''feeling'', ''kinda'', ''lost'', ''today'']
   \<and> extract_locations ''feeling kinda lost today'' dates_only abbreviation_mapping
       = [''no location found'']"
proof -
  have h1: "\<forall>(ent_text, label) \<in> set (dates_only ''feeling kinda lost today''). label \<noteq> ''GPE''"
    by (simp add: dates_only_def)
  have w: "str_split ''feeling kinda lost today'' = [''feeling'', ''kinda'', ''lost'', ''today'']"
    by (simp add: str_split_def is_space_def)
  have h2: "\<forall>word \<in> set (str_split ''feeling kinda lost today'').
        \<forall>(key, val) \<in> set abbreviation_mapping. str_lower word \<noteq> str_lower key"
    unfolding w
    by (simp add: abbreviation_mapping_def str_lower_def lower_char_def is_upper_def)
  from extract_locations_sentinel [where nlp = dates_only, OF h1 h2] w show ?thesis
    by (simp add: dates_only_def)
qed

subsection \<open>The extractor: abbreviations\<close>

lemma str_lower_Nil: "str_lower [] = []"
  by (simp add: str_lower_def)

lemma str_lower_Cons: "str_lower (c # cs) = lower_char c # str_lower cs"
  by (simp add: str_lower_def)

lemma lowered_items:
  "map (\<lambda>(key, val). (str_lower key, val)) abbreviation_mapping =
     [(''nyc'', ''New York City''),
      (''la'', ''Los Angeles''),
      (''sf'', ''San Francisco''),
      (''uk'', ''United Kingdom''),
      (''usa'', ''United States''),
      (''us'', ''United States''),
      (''uae'', ''United Arab Emirates''),
      (''tx'', ''Texas''),
      (''ca'', ''California''),
      (''dc'', ''Washington, D.C.'')]"
  by (simp add: abbreviation_mapping_def str_lower_def lower_char_def is_upper_def)

lemma lowered_keys_distinct:
  "distinct (map fst (map (\<lambda>(key, val). (str_lower key, val)) abbreviation_mapping))"
  unfolding lowered_items by simp

lemma configured_lookup:
  assumes "(key, val) \<in> set abbreviation_mapping"
  shows "lower_abbreviation_mapping abbreviation_mapping (str_lower key) = Some val"
proof -
  let ?items = "map (\<lambda>(key, val). (str_lower key, val)) abbreviation_mapping"
  from assms have "(str_lower key, val) \<in> set (rev ?items)"
    by force
  moreover have "distinct (map fst (rev ?items))"
    using lowered_keys_distinct by (simp add: rev_map [symmetric])
  ultimately have "map_of (rev ?items) (str_lower key) = Some val"
    by (simp only: map_of_eq_Some_iff)
  then show ?thesis
    by (simp add: lower_abbreviation_mapping_def lower_abbreviation_mapping_fold)
qed

lemma configured_keys_unique:
  assumes "(key, val) \<in> set abbreviation_mapping"
  shows "\<forall>(key', val') \<in> set abbreviation_mapping.
           str_lower key' = str_lower key \<longrightarrow> val' = val"
proof -
  have "val' = val"
    if "(key', val') \<in> set abbreviation_mapping" and "str_lower key' = str_lower key"
    for key' val'
  proof -
    from that(1) have "lower_abbreviation_mapping abbreviation_mapping (str_lower key') = Some val'"
      by (rule configured_lookup)
    moreover from assms
    have "lower_abbreviation_mapping abbreviation_mapping (str_lower key) = Some val"
      by (rule configured_lookup)
    ultimately show ?thesis using that(2) by simp
  qed
  then show ?thesis by blast
qed

lemma extract_locations_expands_configured:
  assumes "word \<in> set (str_split text)"
    and "(key, val) \<in> set abbreviation_mapping"
    and "str_lower word = str_lower key"
  shows "val \<in> set (extract_locations text nlp abbreviation_mapping)"
proof -
  have "lower_abbreviation_mapping abbreviation_mapping (str_lower word) = Some val"
    unfolding assms(3) using assms(2) by (rule configured_lookup)
  with assms(1) have "val \<in> expansions abbreviation_mapping text"
    by (auto simp: expansions_def)
  then show ?thesis
    by (simp add: in_extract_locations)
qed

text \<open>
  C6 as the specification states it, for the table \<^verbatim>\<open>extract_locations\<close> is given: when
  a word of the text equals a key of the table ignoring case, the result contains the
  expansion of that key. The lowered dictionary keeps one entry for each lowercase form,
  the one of the last item, so a table with two keys that differ only in case loses
  the expansion of the first: below the word \<^verbatim>\<open>LA\<close> is the key \<^verbatim>\<open>LA\<close> itself, and the
  result holds Louisiana and not Los Angeles.
\<close>

theorem extract_locations_colliding_keys_counterexample:
  "''LA'' \<in> set (str_split ''moving to LA soon'')
   \<and> (''LA'', ''Los Angeles'') \<in> set [(''LA'', ''Los Angeles''), (''La'', ''Louisiana'')]
   \<and> str_lower ''LA'' = str_lower ''LA''
   \<and> extract_locations ''moving to LA soon'' dates_only
         [(''LA'', ''Los Angeles''), (''La'', ''Louisiana'')] = [''Louisiana'']
   \<and> ''Los Angeles''
        \<notin> set (extract_locations ''moving to LA soon'' dates_only
                 [(''LA'', ''Los Angeles''), (''La'', ''Louisiana'')])"
proof -
  have ws: "str_split ''moving to LA soon'' = [''moving'', ''to'', ''LA'', ''soon'']"
    by (simp add: str_split_def is_space_def)
  have run: "extract_locations ''moving to LA soon'' dates_only
         [(''LA'', ''Los Angeles''), (''La'', ''Louisiana'')] = [''Louisiana'']"
    by (simp add: extract_locations_def ws dates_only_def py_set_def add_abbreviations_def
          set_add_def lower_abbreviation_mapping_def str_lower_def lower_char_def is_upper_def)
  show ?thesis
    unfolding run by (simp add: ws)
qed

text \<open>
  C6, amended. Case-insensitive abbreviation expansion, for every table: whenever a word
  of \<^verbatim>\<open>text.split()\<close> equals a key of the table ignoring case, and every key of the
  table that equals it ignoring case has the same expansion, the result of
  \<^verbatim>\<open>extract_locations\<close> contains the expansion of that key, whatever the recogniser
  finds. The ten keys of the table \<^verbatim>\<open>process_posts\<close> configures stay distinct in
  lowercase (\<open>configured_keys_unique\<close>), so there the condition always holds
  (\<open>extract_locations_expands_configured\<close>).
\<close>

theorem extract_locations_expands_abbreviation:
  assumes "word \<in> set (str_split text)"
    and "(key, val) \<in> set table"
    and "str_lower word = str_lower key"
    and "\<forall>(key', val') \<in> set table. str_lower key' = str_lower key \<longrightarrow> val' = val"
  shows "val \<in> set (extract_locations text nlp table)"
proof -
  have "lower_abbreviation_mapping table (str_lower word) = Some val"
    unfolding assms(3) using assms(2) assms(4) by (rule lower_abbreviation_mapping_unique)
  with assms(1) have "val \<in> expansions table text"
    by (auto simp: expansions_def)
  then show ?thesis
    by (simp add: in_extract_locations)
qed

text \<open>
  The lowercase spelling \<^verbatim>\<open>nyc\<close> in a text expands to New York City with the
  configured table, in which no other key equals \<^verbatim>\<open>NYC\<close> ignoring case.
\<close>

theorem extract_locations_expands_abbreviation_witness:
  "''nyc'' \<in> set (str_split ''moved to nyc last year'')
   \<and> (''NYC'', ''New York City'') \<in> set abbreviation_mapping
   \<and> str_lower ''nyc'' = str_lower ''NYC''
   \<and> ''New York City''
        \<in> set (extract_locations ''moved to nyc last year'' dates_only abbreviation_mapping)
   \<and> extract_locations ''moved to nyc last year'' dates_only abbreviation_mapping
        = [''New York City'']"
proof -
  have h1: "''nyc'' \<in> set (str_split ''moved to nyc last year'')"
    by (simp add: str_split_def is_space_def)
  have h2: "(''NYC'', ''New York City'') \<in> set abbreviation_mapping"
    by (simp add: abbreviation_mapping_def)
  have h3: "str_lower ''nyc'' = str_lower ''NYC''"
    by (simp add: str_lower_def lower_char_def is_upper_def)
  have h4: "\<forall>(key', val') \<in> set abbreviation_mapping.
              str_lower key' = str_lower ''NYC'' \<longrightarrow> val' = ''New York City''"
    using h2 by (rule configured_keys_unique)
  have run: "extract_locations ''moved to nyc last year'' dates_only abbreviation_mapping
        = [''New York City'']"
    by (simp add: extract_locations_def dates_only_def py_set_def add_abbreviations_def
          set_add_def str_split_def is_space_def abbreviation_mapping_def
          lower_abbreviation_mapping_def str_lower_def lower_char_def is_upper_def)
  from extract_locations_expands_abbreviation
         [where nlp = dates_only and table = abbreviation_mapping, OF h1 h2 h3 h4] h1 h2 h3 run
  show ?thesis by simp
qed

subsection \<open>The frequency mapping\<close>

lemma map_of_counter_add:
  "map_of (counter_add x kvs) =
     (map_of kvs)(x \<mapsto> (case map_of kvs x of None \<Rightarrow> 1 | Some n \<Rightarrow> n + 1))"
  by (induction x kvs rule: counter_add.induct) (auto simp: fun_eq_iff)

lemma map_of_fold_counter_add:
  "map_of (fold counter_add xs acc) k =
     (case map_of acc k of
        None \<Rightarrow> if k \<in> set xs then Some (count_list xs k) else None
      | Some n \<Rightarrow> Some (n + count_list xs k))"
proof (induction xs arbitrary: acc)
  case Nil
  show ?case by (simp split: option.splits)
next
  case (Cons x xs)
  show ?case
    by (simp add: Cons.IH map_of_counter_add split: option.splits)
qed

lemma map_of_Counter:
  "map_of (Counter xs) k = (if k \<in> set xs then Some (count_list xs k) else None)"
  by (simp add: Counter_def map_of_fold_counter_add)

lemma keys_Counter: "fst ` set (Counter xs) = set xs"
proof -
  have "fst ` set (Counter xs) = dom (map_of (Counter xs))"
    by (simp add: dom_map_of_conv_image_fst)
  also have "\<dots> = set xs"
    by (auto simp: map_of_Counter dom_def)
  finally show ?thesis .
qed

lemma count_list_filter:
  "count_list (filter P xs) k = (if P k then count_list xs k else 0)"
  by (induction xs) auto

text \<open>
  C7. Stop-list invariant of the frequency mapping. For every list of per-post location
  lists, no key of the counter \<^verbatim>\<open>filter_locations\<close> returns has its lowercase form in the
  stop-list, and the sentinel \<^verbatim>\<open>"no location found"\<close> is never a key. The filter compares
  the whole lowercased string: a location is a key exactly when it occurs in the input
  and its lowercase form is not a stop word, and then its count is the number of its
  occurrences in the flattened input.
\<close>

theorem filter_locations_stop_list:
  "(\<forall>key \<in> fst ` set (filter_locations all_locations). str_lower key \<notin> set unwanted_words)
   \<and> ''no location found'' \<notin> fst ` set (filter_locations all_locations)
   \<and> (\<forall>loc. map_of (filter_locations all_locations) loc =
          (if loc \<in> set (concat all_locations) \<and> str_lower loc \<notin> set unwanted_words
           then Some (count_list (concat all_locations) loc) else None))"
proof -
  let ?kept = "filter (\<lambda>loc. str_lower loc \<notin> set unwanted_words) (concat all_locations)"
  have f: "filter_locations all_locations = Counter ?kept"
    by (simp add: filter_locations_def Let_def)
  have keys: "fst ` set (filter_locations all_locations) = set ?kept"
    unfolding f by (rule keys_Counter)
  have a: "\<forall>key \<in> fst ` set (filter_locations all_locations). str_lower key \<notin> set unwanted_words"
    unfolding keys by simp
  have low: "str_lower ''no location found'' = ''no location found''"
    by (simp add: str_lower_def lower_char_def is_upper_def)
  have "str_lower ''no location found'' \<in> set unwanted_words"
    unfolding low by (simp add: unwanted_words_def)
  with a have b: "''no location found'' \<notin> fst ` set (filter_locations all_locations)"
    by blast
  have c: "map_of (filter_locations all_locations) loc =
          (if loc \<in> set (concat all_locations) \<and> str_lower loc \<notin> set unwanted_words
           then Some (count_list (concat all_locations) loc) else None)" for loc
    unfolding f map_of_Counter by (simp add: count_list_filter)
  from a b c show ?thesis by blast
qed

text \<open>
  Two posts: the sentinel and \<^verbatim>\<open>METH\<close> are dropped, Methuen (which only contains a stop
  word) is kept, Texas is counted twice.
\<close>

theorem filter_locations_stop_list_witness:
  "filter_locations [[''Texas'', ''no location found''], [''Methuen'', ''METH'', ''Texas'']]
     = [(''Texas'', 2), (''Methuen'', 1)]
   \<and> str_lower ''Texas'' \<notin> set unwanted_words
   \<and> str_lower ''Methuen'' \<notin> set unwanted_words
   \<and> map_of (filter_locations [[''Texas'', ''no location found''], [''Methuen'', ''METH'', ''Texas'']])
        ''METH'' = None"
proof -
  let ?input = "[[''Texas'', ''no location found''], [''Methuen'', ''METH'', ''Texas'']]"
  have run: "filter_locations ?input = [(''Texas'', 2), (''Methuen'', 1)]"
    by (simp add: filter_locations_def Counter_def unwanted_words_def
          str_lower_def lower_char_def is_upper_def)
  have keys: "''Texas'' \<in> fst ` set (filter_locations ?input)"
    "''Methuen'' \<in> fst ` set (filter_locations ?input)"
    unfolding run by simp_all
  from filter_locations_stop_list [of ?input] keys run show ?thesis
    by simp
qed

subsection \<open>Occurrences within one post\<close>

lemma count_list_distinct:
  "distinct xs \<Longrightarrow> count_list xs x = (if x \<in> set xs then 1 else 0)"
  by (induction xs) auto

lemma count_list_concat_append:
  "count_list (concat (before @ [xs] @ after)) x
     = count_list (concat before) x + count_list xs x + count_list (concat after) x"
  by simp

lemma configured_mapping:
  "lower_abbreviation_mapping abbreviation_mapping =
     map_of [(''dc'', ''Washington, D.C.''),
             (''ca'', ''California''),
             (''tx'', ''Texas''),
             (''uae'', ''United Arab Emirates''),
             (''us'', ''United States''),
             (''usa'', ''United States''),
             (''uk'', ''United Kingdom''),
             (''sf'', ''San Francisco''),
             (''la'', ''Los Angeles''),
             (''nyc'', ''New York City'')]"
  unfolding lower_abbreviation_mapping_def lower_abbreviation_mapping_fold lowered_items
  by simp

text \<open>
  C4 as the specification states it: a name that a post yields both from the recogniser
  and from an abbreviation counts twice. The extractor collects both passes in one set,
  so it does not: in the post below the recogniser finds Texas, the word \<^verbatim>\<open>TX\<close> expands
  to Texas, and the location list of the post holds Texas once; the flattened sequence
  and the counter have one occurrence, not two.
\<close>

theorem extract_locations_double_count_counterexample:
  "(''Texas'', ''GPE'') \<in> set (texas_ner ''I live in Texas TX'')
   \<and> ''TX'' \<in> set (str_split ''I live in Texas TX'')
   \<and> lower_abbreviation_mapping abbreviation_mapping (str_lower ''TX'') = Some ''Texas''
   \<and> extract_locations ''I live in Texas TX'' texas_ner abbreviation_mapping = [''Texas'']
   \<and> count_list
         (concat [extract_locations ''I live in Texas TX'' texas_ner abbreviation_mapping])
         ''Texas'' \<noteq> 2
   \<and> filter_locations [extract_locations ''I live in Texas TX'' texas_ner abbreviation_mapping]
       = [(''Texas'', 1)]"
proof -
  have ner: "(''Texas'', ''GPE'') \<in> set (texas_ner ''I live in Texas TX'')"
    by (simp add: texas_ner_def)
  have ws: "str_split ''I live in Texas TX'' = [''I'', ''live'', ''in'', ''Texas'', ''TX'']"
    by (simp add: str_split_def is_space_def)
  have tx: "(''TX'', ''Texas'') \<in> set abbreviation_mapping"
    by (simp add: abbreviation_mapping_def)
  have ab: "lower_abbreviation_mapping abbreviation_mapping (str_lower ''TX'') = Some ''Texas''"
    using tx by (rule configured_lookup)
  have low: "map str_lower [''I'', ''live'', ''in'', ''Texas'', ''TX'']
               = [''i'', ''live'', ''in'', ''texas'', ''tx'']"
    by (simp add: str_lower_def lower_char_def is_upper_def)
  have run: "extract_locations ''I live in Texas TX'' texas_ner abbreviation_mapping = [''Texas'']"
    using low
    by (simp add: extract_locations_def ws texas_ner_def py_set_def add_abbreviations_def
          set_add_def configured_mapping)
  have cnt: "filter_locations [[''Texas'']] = [(''Texas'', 1)]"
    by (simp add: filter_locations_def Counter_def unwanted_words_def
          str_lower_def lower_char_def is_upper_def)
  show ?thesis
    unfolding run using ner ab cnt by (simp add: ws)
qed

text \<open>
  C4, amended. A name that a post yields both from the recogniser and from an
  abbreviation occurs exactly once in the location list of that post. In the flattened
  sequence of a run it therefore adds one occurrence to those of the posts before and
  after it, and the counter holds that sum for it (unless the stop-list drops the
  name). The flattening itself removes nothing: occurrences in different posts all count.
\<close>

theorem extract_locations_single_occurrence:
  assumes "(name, ''GPE'') \<in> set (nlp text)"
    and "word \<in> set (str_split text)"
    and "lower_abbreviation_mapping table (str_lower word) = Some name"
  shows "count_list (extract_locations text nlp table) name = 1
       \<and> count_list (concat (before @ [extract_locations text nlp table] @ after)) name
           = count_list (concat before) name + 1 + count_list (concat after) name
       \<and> map_of (filter_locations (before @ [extract_locations text nlp table] @ after)) name
           = (if str_lower name \<in> set unwanted_words then None
              else Some (count_list (concat before) name + 1 + count_list (concat after) name))"
proof -
  from assms(1) have "name \<in> gpe_names nlp text"
    by (simp add: gpe_names_def)
  then have "name \<in> set (extract_locations text nlp table)"
    by (simp add: in_extract_locations)
  then have one: "count_list (extract_locations text nlp table) name = 1"
    by (simp add: count_list_distinct distinct_extract_locations)
  have flat: "count_list (concat (before @ [extract_locations text nlp table] @ after)) name
           = count_list (concat before) name + 1 + count_list (concat after) name"
    unfolding count_list_concat_append one ..
  have "name \<in> set (concat (before @ [extract_locations text nlp table] @ after))"
    using \<open>name \<in> set (extract_locations text nlp table)\<close> by simp
  then have "map_of (Counter (filter (\<lambda>loc. str_lower loc \<notin> set unwanted_words)
                 (concat (before @ [extract_locations text nlp table] @ after)))) name
           = (if str_lower name \<in> set unwanted_words then None
              else Some (count_list (concat (before @ [extract_locations text nlp table] @ after)) name))"
    unfolding map_of_Counter by (simp add: count_list_filter)
  then have freq: "map_of (filter_locations (before @ [extract_locations text nlp table] @ after)) name
           = (if str_lower name \<in> set unwanted_words then None
              else Some (count_list (concat before) name + 1 + count_list (concat after) name))"
    unfolding flat by (simp add: filter_locations_def Let_def)
  from one flat freq show ?thesis by blast
qed

text \<open>
  Three posts: one that names Texas, the post where the recogniser and \<^verbatim>\<open>TX\<close> agree on
  Texas, and one without a location. Texas is counted twice, once per post.
\<close>

theorem extract_locations_single_occurrence_witness:
  "count_list (extract_locations ''I live in Texas TX'' texas_ner abbreviation_mapping) ''Texas'' = 1
   \<and> map_of (filter_locations
        ([[''Texas'']] @ [extract_locations ''I live in Texas TX'' texas_ner abbreviation_mapping]
           @ [[''no location found'']])) ''Texas'' = Some 2"
proof -
  have h1: "(''Texas'', ''GPE'') \<in> set (texas_ner ''I live in Texas TX'')"
    by (simp add: texas_ner_def)
  have h2: "''TX'' \<in> set (str_split ''I live in Texas TX'')"
    by (simp add: str_split_def is_space_def)
  have tx: "(''TX'', ''Texas'') \<in> set abbreviation_mapping"
    by (simp add: abbreviation_mapping_def)
  have h3: "lower_abbreviation_mapping abbreviation_mapping (str_lower ''TX'') = Some ''Texas''"
    using tx by (rule configured_lookup)
  have sw: "str_lower ''Texas'' \<notin> set unwanted_words"
    by (simp add: unwanted_words_def str_lower_def lower_char_def is_upper_def)
  from extract_locations_single_occurrence
         [where nlp = texas_ner and before = "[[''Texas'']]" and after = "[[''no location found'']]",
          OF h1 h2 h3] sw
  show ?thesis by simp
qed

subsection \<open>The aggregator\<close>

lemma length_outcomes: "length (outcomes geocode w items) = length items"
  by (induction items arbitrary: w) (auto split: prod.splits)

lemma resolve_items_points:
  "fst (resolve_items geocode w items acc)
     = acc @ concat (map point (zip items (outcomes geocode w items)))"
proof (induction items arbitrary: w acc)
  case Nil
  show ?case by simp
next
  case (Cons item items)
  obtain location count where item: "item = (location, count)" by (cases item)
  obtain coords w1 where g: "get_coordinates geocode w location = (coords, w1)"
    by (cases "get_coordinates geocode w location")
  show ?case
  proof (cases coords)
    case None
    then show ?thesis by (simp add: item g Cons.IH)
  next
    case (Some c)
    obtain la lo where "c = (la, lo)" by (cases c)
    with Some show ?thesis by (simp add: item g Cons.IH)
  qed
qed

text \<open>
  C8. The aggregator drops unresolved names and emits \<^verbatim>\<open>(lat, lon, count)\<close> for resolved
  ones. For every counter and every collaborator, the list \<^verbatim>\<open>get_location_coordinates\<close>
  returns is, in the order of the items, one triple of latitude, longitude and count for
  each item whose name the resolver resolves and nothing for an item whose name resolves
  to \<^verbatim>\<open>None\<close>; the function always returns such a list, whatever the collaborator
  raises. For the counter \<^verbatim>\<open>{"Texas": 5}\<close> and a collaborator that answers
  \<^verbatim>\<open>(31.0, -100.0)\<close> for Texas the list is \<^verbatim>\<open>[(31.0, -100.0, 5)]\<close>; an unresolved name
  before Texas adds no point, and a collaborator that fails gives the empty list.
\<close>

theorem get_location_coordinates_points:
  "fst (get_location_coordinates geocode g location_counts)
     = concat (map point (zip location_counts (outcomes geocode (fresh g) location_counts)))
   \<and> length (outcomes geocode (fresh g) location_counts) = length location_counts
   \<and> fst (get_location_coordinates texas_mock 0 [(''Texas'', 5)]) = [(31, -100, 5)]
   \<and> fst (get_location_coordinates texas_mock 0 [(''Atlantis'', 3), (''Texas'', 5)])
       = [(31, -100, 5)]
   \<and> fst (get_location_coordinates always_fails 0 [(''Texas'', 5)]) = []"
proof -
  have a: "fst (get_location_coordinates geocode g location_counts)
     = concat (map point (zip location_counts (outcomes geocode (fresh g) location_counts)))"
    by (simp add: get_location_coordinates_def resolve_items_points)
  have b: "fst (get_location_coordinates texas_mock 0 [(''Texas'', 5)]) = [(31, -100, 5)]"
    by (simp add: get_location_coordinates_def get_coordinates_def fresh_def texas_mock_def
          emit_def numeral_3_eq_3)
  have c: "fst (get_location_coordinates texas_mock 0 [(''Atlantis'', 3), (''Texas'', 5)])
       = [(31, -100, 5)]"
    by (simp add: get_location_coordinates_def get_coordinates_def fresh_def texas_mock_def
          emit_def numeral_3_eq_3)
  have d: "fst (get_location_coordinates always_fails 0 [(''Texas'', 5)]) = []"
    by (simp add: get_location_coordinates_def get_coordinates_def fresh_def always_fails_def
          emit_def numeral_3_eq_3)
  from a b c d show ?thesis by (simp add: length_outcomes)
qed

subsection \<open>Posts and their location field\<close>

lemma process_posts_KeyError:
  "map_of p ''content'' = None \<Longrightarrow> process_posts nlp (p # rest) = Inl (KeyError ''content'')"
  by simp

lemma process_posts_NotAString:
  "map_of p ''content'' = Some v \<Longrightarrow> (\<forall>t. v \<noteq> JStr t) \<Longrightarrow>
     process_posts nlp (p # rest) = Inl NotAString"
  by (cases v) simp_all

lemma process_posts_Cons_ok:
  assumes "map_of p ''content'' = Some (JStr t)"
    and "process_posts nlp rest = Inr (posts', all_locations)"
  shows "process_posts nlp (p # rest)
           = Inr (AList.update ''location''
                    (location_field (extract_locations t nlp abbreviation_mapping)) p # posts',
                  extract_locations t nlp abbreviation_mapping # all_locations)"
  using assms by (simp add: Let_def)

lemma process_posts_total:
  assumes "\<forall>p \<in> set posts. \<exists>t. map_of p ''content'' = Some (JStr t)"
  shows "\<exists>posts' all_locations. process_posts nlp posts = Inr (posts', all_locations)
           \<and> length posts' = length posts \<and> length all_locations = length posts
           \<and> (\<forall>i < length posts. \<exists>t.
                 map_of (posts ! i) ''content'' = Some (JStr t)
               \<and> all_locations ! i = extract_locations t nlp abbreviation_mapping
               \<and> posts' ! i = AList.update ''location'' (location_field (all_locations ! i)) (posts ! i))"
  using assms
proof (induction posts)
  case Nil
  show ?case by simp
next
  case (Cons p rest)
  from Cons.prems obtain t where t: "map_of p ''content'' = Some (JStr t)"
    by auto
  from Cons.prems have "\<forall>p \<in> set rest. \<exists>t. map_of p ''content'' = Some (JStr t)"
    by simp
  from Cons.IH [OF this] obtain posts' all_locations where
    r: "process_posts nlp rest = Inr (posts', all_locations)"
    and l: "length posts' = length rest" "length all_locations = length rest"
    and f: "\<forall>i < length rest. \<exists>t.
                 map_of (rest ! i) ''content'' = Some (JStr t)
               \<and> all_locations ! i = extract_locations t nlp abbreviation_mapping
               \<and> posts' ! i = AList.update ''location'' (location_field (all_locations ! i)) (rest ! i)"
    by blast
  let ?locs = "extract_locations t nlp abbreviation_mapping"
  let ?p' = "AList.update ''location'' (location_field ?locs) p"
  have run: "process_posts nlp (p # rest) = Inr (?p' # posts', ?locs # all_locations)"
    using t r by (rule process_posts_Cons_ok)
  have "\<exists>t. map_of ((p # rest) ! i) ''content'' = Some (JStr t)
               \<and> (?locs # all_locations) ! i = extract_locations t nlp abbreviation_mapping
               \<and> (?p' # posts') ! i
                   = AList.update ''location'' (location_field ((?locs # all_locations) ! i))
                       ((p # rest) ! i)"
    if "i < length (p # rest)" for i
  proof (cases i)
    case 0
    with t show ?thesis by simp
  next
    case (Suc j)
    with that have "j < length rest" by simp
    with f Suc show ?thesis by simp
  qed
  with run l show ?case by simp
qed

lemma update_location_frame:
  "map_of (AList.update ''location'' v p) ''location'' = Some v
   \<and> (\<forall>field. field \<noteq> ''location'' \<longrightarrow> map_of (AList.update ''location'' v p) field = map_of p field)
   \<and> map fst (AList.update ''location'' v p)
       = (if ''location'' \<in> set (map fst p) then map fst p else map fst p @ [''location''])"
  by (simp add: update_conv' update_keys)

text \<open>
  C10. Frame property of \<^verbatim>\<open>process_posts\<close>. For posts that each have a string
  \<^verbatim>\<open>content\<close> field, \<^verbatim>\<open>process_posts\<close> returns as many posts and location lists as it
  was given; the location list of a post is what \<^verbatim>\<open>extract_locations\<close> finds in its
  content; the returned post has the field \<^verbatim>\<open>location\<close> holding that list; every other
  field has the value it had; and the field names are the ones of the input post, in
  their order, with \<^verbatim>\<open>location\<close> appended when it was not there.
\<close>

theorem process_posts_frame:
  assumes "\<forall>p \<in> set posts. \<exists>t. map_of p ''content'' = Some (JStr t)"
  shows "\<exists>posts' all_locations. process_posts nlp posts = Inr (posts', all_locations)
           \<and> length posts' = length posts \<and> length all_locations = length posts
           \<and> (\<forall>i < length posts. \<exists>t.
                 map_of (posts ! i) ''content'' = Some (JStr t)
               \<and> all_locations ! i = extract_locations t nlp abbreviation_mapping
               \<and> map_of (posts' ! i) ''location'' = Some (location_field (all_locations ! i))
               \<and> (\<forall>field. field \<noteq> ''location'' \<longrightarrow>
                     map_of (posts' ! i) field = map_of (posts ! i) field)
               \<and> map fst (posts' ! i)
                   = (if ''location'' \<in> set (map fst (posts ! i)) then map fst (posts ! i)
                      else map fst (posts ! i) @ [''location'']))"
proof -
  from process_posts_total [OF assms, of nlp] obtain posts' all_locations where
    r: "process_posts nlp posts = Inr (posts', all_locations)"
    and l: "length posts' = length posts" "length all_locations = length posts"
    and f: "\<forall>i < length posts. \<exists>t.
                 map_of (posts ! i) ''content'' = Some (JStr t)
               \<and> all_locations ! i = extract_locations t nlp abbreviation_mapping
               \<and> posts' ! i = AList.update ''location'' (location_field (all_locations ! i)) (posts ! i)"
    by blast
  have "\<exists>t. map_of (posts ! i) ''content'' = Some (JStr t)
               \<and> all_locations ! i = extract_locations t nlp abbreviation_mapping
               \<and> map_of (posts' ! i) ''location'' = Some (location_field (all_locations ! i))
               \<and> (\<forall>field. field \<noteq> ''location'' \<longrightarrow>
                     map_of (posts' ! i) field = map_of (posts ! i) field)
               \<and> map fst (posts' ! i)
                   = (if ''location'' \<in> set (map fst (posts ! i)) then map fst (posts ! i)
                      else map fst (posts ! i) @ [''location''])"
    if "i < length posts" for i
  proof -
    from f that obtain t where
      t: "map_of (posts ! i) ''content'' = Some (JStr t)"
         "all_locations ! i = extract_locations t nlp abbreviation_mapping"
         "posts' ! i = AList.update ''location'' (location_field (all_locations ! i)) (posts ! i)"
      by blast
    from update_location_frame [of "location_field (all_locations ! i)" "posts ! i"] t
    show ?thesis by metis
  qed
  with r l show ?thesis by blast
qed

text \<open>A post with four fields comes back with the same four and its location as the fifth.\<close>

theorem process_posts_frame_witness:
  "process_posts dates_only
     [[(''id'', JStr ''p1''), (''content'', JStr ''moved to nyc last year''),
       (''sentiment'', JStr ''Neutral''), (''risk_level'', JStr ''Low Concern'')]]
   = Inr ([[(''id'', JStr ''p1''), (''content'', JStr ''moved to nyc last year''),
            (''sentiment'', JStr ''Neutral''), (''risk_level'', JStr ''Low Concern''),
            (''location'', JArr [JStr ''New York City''])]],
          [[''New York City'']])"
proof -
  let ?post = "[(''id'', JStr ''p1''), (''content'', JStr ''moved to nyc last year''),
       (''sentiment'', JStr ''Neutral''), (''risk_level'', JStr ''Low Concern'')]"
  have h: "\<forall>p \<in> set [?post]. \<exists>t. map_of p ''content'' = Some (JStr t)"
    by simp
  have ex: "extract_locations ''moved to nyc last year'' dates_only abbreviation_mapping
              = [''New York City'']"
    by (simp add: extract_locations_def dates_only_def py_set_def add_abbreviations_def
          set_add_def str_split_def is_space_def abbreviation_mapping_def
          lower_abbreviation_mapping_def str_lower_def lower_char_def is_upper_def)
  from process_posts_frame [where nlp = dates_only, OF h] obtain posts' all_locations where
    r: "process_posts dates_only [?post] = Inr (posts', all_locations)"
    and l: "length posts' = 1" "length all_locations = 1"
    and f: "\<exists>t. map_of ([?post] ! 0) ''content'' = Some (JStr t)
               \<and> all_locations ! 0 = extract_locations t dates_only abbreviation_mapping
               \<and> map_of (posts' ! 0) ''location'' = Some (location_field (all_locations ! 0))
               \<and> (\<forall>field. field \<noteq> ''location'' \<longrightarrow>
                     map_of (posts' ! 0) field = map_of ([?post] ! 0) field)
               \<and> map fst (posts' ! 0)
                   = (if ''location'' \<in> set (map fst ([?post] ! 0)) then map fst ([?post] ! 0)
                      else map fst ([?post] ! 0) @ [''location''])"
    by force
  have "process_posts dates_only [?post]
          = Inr ([AList.update ''location'' (location_field [''New York City'']) ?post],
                 [[''New York City'']])"
    by (simp add: ex Let_def)
  then show ?thesis
    using r by (simp add: location_field_def)
qed

end
